theory Spec2Isabelle
  imports Complex_Main "HOL-Library.Word"
begin

section \<open>JavaScript values used by the front end\<close>

text \<open>
  A JavaScript string is a sequence of 16-bit code units. String literals of the source
  are ASCII and are written through \<open>ustr\<close>.

  A JavaScript \<open>number\<close> is an IEEE double. It is read in two ways. Where a property
  is about the algorithm (which entries are added, what is stored, how sums are ranked)
  numbers are reals and the arithmetic is exact. Where a property is about the value a
  computation returns, or about intensities of any magnitude, numbers are doubles with
  their rounding, their infinities and NaN: \<open>jsnumber\<close> below.
\<close>

type_synonym jsstring = "16 word list"

definition ustr :: "string \<Rightarrow> jsstring" where
  "ustr s = map (\<lambda>c. of_char c) s"

text \<open>
  \<open>Record<string, number>\<close>: the own properties of the object in the order
  \<open>Object.entries\<close> lists them, one pair per key. The keys here are emotion names:
  no key is a canonical array index, so the order is insertion order, and no key names
  an inherited property, so a read finds an own property or \<open>undefined\<close>.
\<close>

type_synonym number_record = "(jsstring \<times> real) list"

text \<open>\<open>obj[k]\<close>: \<open>None\<close> stands for \<open>undefined\<close>.\<close>

definition obj_get :: "number_record \<Rightarrow> jsstring \<Rightarrow> real option" where
  "obj_get obj k = map_of obj k"

text \<open>\<open>obj[k] = v\<close>: an existing property keeps its place, a new one goes last.\<close>

definition obj_set :: "number_record \<Rightarrow> jsstring \<Rightarrow> real \<Rightarrow> number_record" where
  "obj_set obj k v =
     (if k \<in> fst ` set obj
      then map (\<lambda>(k', v'). if k' = k then (k', v) else (k', v')) obj
      else obj @ [(k, v)])"

section \<open>FaceScanner.tsx: calculateMoodScore\<close>

text \<open>First with exact arithmetic.\<close>

definition positiveEmotions :: "jsstring list" where
  "positiveEmotions = [ustr ''happy'', ustr ''surprised'']"

definition negativeEmotions :: "jsstring list" where
  "negativeEmotions = [ustr ''sad'', ustr ''angry'', ustr ''fearful'', ustr ''disgusted'']"

text \<open>The \<open>for ... of Object.entries(expressions)\<close> loop, \<open>score\<close> being the loop variable.\<close>

fun score_loop :: "real \<Rightarrow> number_record \<Rightarrow> real" where
  "score_loop score [] = score"
| "score_loop score ((emotion, v) # rest) =
     (if emotion \<in> set positiveEmotions then score_loop (score + v * 3) rest
      else if emotion \<in> set negativeEmotions then score_loop (score - v * 3) rest
      else score_loop score rest)"

definition calculateMoodScore :: "number_record \<Rightarrow> real" where
  "calculateMoodScore expressions = max 0 (min 10 (score_loop 5.0 expressions))"

section \<open>Numbers as IEEE doubles\<close>

text \<open>
  A double is a finite value, an infinity or NaN. The finite values are the reals
  \<open>m * 2 ^ e\<close> with a significand of 53 bits; the two zeros are not told apart.
\<close>

datatype jsnumber = Num real | PosInf | NegInf | NaN

text \<open>Rounding to the nearest integer, a tie going to the even one.\<close>

definition round_half_even :: "real \<Rightarrow> int" where
  "round_half_even x =
     (let f = \<lfloor>x\<rfloor>; d = x - of_int f
      in if d < 1 / 2 then f else if 1 / 2 < d then f + 1
         else if even f then f else f + 1)"

text \<open>
  The binary exponent of a magnitude: the greatest \<open>e\<close> among 1023, 1022, ... , -1021 with
  \<open>2 ^ e \<le> a\<close>, and -1022 for anything smaller (the subnormal range).
\<close>

fun expo :: "nat \<Rightarrow> real \<Rightarrow> int" where
  "expo 0 a = - 1022"
| "expo (Suc k) a = (if 2 powi (int k - 1021) \<le> a then int k - 1021 else expo k a)"

text \<open>
  The double nearest to a real, ties to even: the magnitude is rounded to a multiple of
  the unit in the last place of its binade, and a result of \<open>2 ^ 1024\<close> or more
  overflows to an infinity. This is how a decimal literal of the source is read and how
  the exact result of every arithmetic operation is rounded.
\<close>

definition round_double :: "real \<Rightarrow> jsnumber" where
  "round_double x =
     (let a = \<bar>x\<bar>; e = expo 2045 a; q = 2 powi (e - 52);
          y = of_int (round_half_even (a / q)) * q
      in if 2 powi 1024 \<le> y then (if 0 < x then PosInf else NegInf)
         else Num (if 0 \<le> x then y else - y))"

text \<open>Negation, addition, subtraction and multiplication of the language.\<close>

fun js_neg :: "jsnumber \<Rightarrow> jsnumber" where
  "js_neg (Num a) = Num (- a)"
| "js_neg PosInf = NegInf"
| "js_neg NegInf = PosInf"
| "js_neg NaN = NaN"

fun js_add :: "jsnumber \<Rightarrow> jsnumber \<Rightarrow> jsnumber" where
  "js_add NaN y = NaN"
| "js_add x NaN = NaN"
| "js_add (Num a) (Num b) = round_double (a + b)"
| "js_add PosInf NegInf = NaN"
| "js_add NegInf PosInf = NaN"
| "js_add PosInf y = PosInf"
| "js_add NegInf y = NegInf"
| "js_add x PosInf = PosInf"
| "js_add x NegInf = NegInf"

definition js_sub :: "jsnumber \<Rightarrow> jsnumber \<Rightarrow> jsnumber" where
  "js_sub x y = js_add x (js_neg y)"

fun js_mul :: "jsnumber \<Rightarrow> jsnumber \<Rightarrow> jsnumber" where
  "js_mul NaN y = NaN"
| "js_mul x NaN = NaN"
| "js_mul (Num a) (Num b) = round_double (a * b)"
| "js_mul (Num a) PosInf = (if a = 0 then NaN else if 0 < a then PosInf else NegInf)"
| "js_mul (Num a) NegInf = (if a = 0 then NaN else if 0 < a then NegInf else PosInf)"
| "js_mul PosInf (Num b) = (if b = 0 then NaN else if 0 < b then PosInf else NegInf)"
| "js_mul NegInf (Num b) = (if b = 0 then NaN else if 0 < b then NegInf else PosInf)"
| "js_mul PosInf PosInf = PosInf"
| "js_mul PosInf NegInf = NegInf"
| "js_mul NegInf PosInf = NegInf"
| "js_mul NegInf NegInf = PosInf"

text \<open>\<open>x < y\<close>, and \<open>Math.max\<close> and \<open>Math.min\<close>: NaN when an argument is NaN.\<close>

fun js_less :: "jsnumber \<Rightarrow> jsnumber \<Rightarrow> bool" where
  "js_less NaN y = False"
| "js_less x NaN = False"
| "js_less (Num a) (Num b) = (a < b)"
| "js_less x NegInf = False"
| "js_less PosInf y = False"
| "js_less NegInf y = True"
| "js_less x PosInf = True"

definition Math_max :: "jsnumber \<Rightarrow> jsnumber \<Rightarrow> jsnumber" where
  "Math_max x y = (if x = NaN \<or> y = NaN then NaN else if js_less x y then y else x)"

definition Math_min :: "jsnumber \<Rightarrow> jsnumber \<Rightarrow> jsnumber" where
  "Math_min x y = (if x = NaN \<or> y = NaN then NaN else if js_less y x then y else x)"

text \<open>\<open>calculateMoodScore\<close> with numbers as doubles: the same loop and the same clamp.\<close>

fun score_loop_double :: "jsnumber \<Rightarrow> (jsstring \<times> jsnumber) list \<Rightarrow> jsnumber" where
  "score_loop_double s [] = s"
| "score_loop_double s ((emotion, v) # rest) =
     (if emotion \<in> set positiveEmotions
      then score_loop_double (js_add s (js_mul v (Num 3))) rest
      else if emotion \<in> set negativeEmotions
      then score_loop_double (js_sub s (js_mul v (Num 3))) rest
      else score_loop_double s rest)"

definition calculateMoodScore_double :: "(jsstring \<times> jsnumber) list \<Rightarrow> jsnumber" where
  "calculateMoodScore_double expressions =
     Math_max (Num 0) (Math_min (Num 10) (score_loop_double (Num 5.0) expressions))"

text \<open>A finite number of magnitude at most \<open>B\<close>.\<close>

definition magnitude_at_most :: "nat \<Rightarrow> jsnumber \<Rightarrow> bool" where
  "magnitude_at_most B v = (case v of Num w \<Rightarrow> \<bar>w\<bar> \<le> real B | _ \<Rightarrow> False)"

section \<open>Array and string methods of the standard library\<close>

text \<open>
  \<open>arr.sort((a, b) => b[1] - a[1])\<close> on entries: descending by value. The sort of the
  language is stable, so entries of equal value keep their order; insertion of the
  negated value as the key gives exactly that list.
\<close>

definition sort_desc :: "number_record \<Rightarrow> number_record" where
  "sort_desc xs = sort_key (\<lambda>(k, v). - v) xs"

text \<open>\<open>arr.join(sep)\<close>.\<close>

fun join :: "jsstring \<Rightarrow> jsstring list \<Rightarrow> jsstring" where
  "join sep [] = []"
| "join sep [x] = x"
| "join sep (x # y # ys) = x @ sep @ join sep (y # ys)"

text \<open>
  \<open>str.trim()\<close> removes white space and line terminators from both ends: TAB, LF, VT,
  FF, CR, SP, NBSP, the space separators U+1680, U+2000 to U+200A, U+202F, U+205F and
  U+3000, the line and paragraph separators U+2028 and U+2029, and U+FEFF.
\<close>

definition isWhiteSpace :: "16 word \<Rightarrow> bool" where
  "isWhiteSpace c \<longleftrightarrow>
     c = 0x0009 \<or> c = 0x000A \<or> c = 0x000B \<or> c = 0x000C \<or> c = 0x000D \<or> c = 0x0020
     \<or> c = 0x00A0 \<or> c = 0x1680 \<or> (0x2000 \<le> c \<and> c \<le> 0x200A) \<or> c = 0x2028
     \<or> c = 0x2029 \<or> c = 0x202F \<or> c = 0x205F \<or> c = 0x3000 \<or> c = 0xFEFF"

definition trim :: "jsstring \<Rightarrow> jsstring" where
  "trim s = rev (dropWhile isWhiteSpace (rev (dropWhile isWhiteSpace s)))"

section \<open>services/api.ts: requests and responses\<close>

record MoodAnalysisRequest =
  text' :: jsstring
  user_id :: "jsstring option"

record Sentiment =
  label :: jsstring
  score :: real

record MoodAnalysis =
  sentiment :: Sentiment
  emotions :: number_record
  mood_score :: real
  text_length :: real

datatype RiskLevel = LOW | MEDIUM | HIGH

record Resource =
  name :: jsstring
  phone :: jsstring
  text' :: "jsstring option"
  available :: jsstring
  priority :: "jsstring option"

record CrisisCheck =
  risk_level :: RiskLevel
  indicators :: "jsstring list"
  requires_immediate_attention :: bool
  resources :: "Resource list"
  ai_reasoning :: "jsstring option"
  ai_enhanced :: "bool option"

record Recommendation =
  type :: jsstring
  title :: jsstring
  description :: jsstring
  priority :: jsstring
  source :: "jsstring option"
  ai_enhanced :: "bool option"

record MoodAnalysisResponse =
  success :: bool
  mood_analysis :: MoodAnalysis
  crisis_check :: CrisisCheck
  recommendations :: "Recommendation list"

record MoodHistoryEntry =
  timestamp :: jsstring
  mood_score :: real
  sentiment :: Sentiment
  emotions :: "number_record option"
  text' :: jsstring

text \<open>
  A rejected request, as the handlers read it: \<open>err.response?.data?.detail\<close> (absent when
  there was no response) and \<open>err.message\<close>.
\<close>

record ApiError =
  detail :: "jsstring option"
  message :: jsstring

text \<open>
  \<open>moodAPI.analyze\<close> posts the request and resolves with the response body, or rejects.
  The server is not part of the front end: it is a parameter of the handlers.
\<close>

type_synonym analyze_api = "MoodAnalysisRequest \<Rightarrow> ApiError + MoodAnalysisResponse"

section \<open>MoodAnalyzer.tsx\<close>

text \<open>
  The state of the component that the two handlers read and write. The visibility flags
  of the sample prompts and of the scanner are not touched by them and are left out.
\<close>

record MoodAnalyzerState =
  text' :: jsstring
  loading :: bool
  result :: "MoodAnalysisResponse option"
  error :: "jsstring option"

definition initialMoodAnalyzerState :: MoodAnalyzerState where
  "initialMoodAnalyzerState =
     \<lparr>MoodAnalyzerState.text' = [], loading = False, result = None, error = None\<rparr>"

text \<open>\<open>a || b\<close> on an optional string: an absent or empty \<open>a\<close> gives \<open>b\<close>.\<close>

definition or_else :: "jsstring option \<Rightarrow> jsstring \<Rightarrow> jsstring" where
  "or_else a b = (case a of None \<Rightarrow> b | Some s \<Rightarrow> if s = [] then b else s)"

text \<open>
  \<open>handleAnalyze\<close>, run to the end of its \<open>finally\<close> block. The result is the component
  state together with the requests that were sent to the server.
\<close>

definition handleAnalyze ::
  "analyze_api \<Rightarrow> MoodAnalyzerState \<Rightarrow> MoodAnalyzerState \<times> MoodAnalysisRequest list" where
  "handleAnalyze api st =
     (if trim (MoodAnalyzerState.text' st) = []
      then (st\<lparr>error := Some (ustr ''Please enter some text to analyze'')\<rparr>, [])
      else
        let st1 = st\<lparr>loading := True, error := None, result := None\<rparr>;
            req = \<lparr>MoodAnalysisRequest.text' = MoodAnalyzerState.text' st,
                   user_id = Some (ustr ''default_user'')\<rparr>
        in (case api req of
              Inr response \<Rightarrow> (st1\<lparr>result := Some response, loading := False\<rparr>, [req])
            | Inl err \<Rightarrow>
                (st1\<lparr>error := Some (or_else (detail err)
                          (ustr ''Failed to analyze mood: '' @ message err
                             @ ustr ''. Is the backend running?'')),
                      loading := False\<rparr>, [req])))"

text \<open>
  The crisis alert of the rendered result:
  \<open>{result.crisis_check.requires_immediate_attention && (...)}\<close>.
\<close>

definition crisisAlertShown :: "MoodAnalysisResponse \<Rightarrow> bool" where
  "crisisAlertShown r = requires_immediate_attention (crisis_check r)"

text \<open>The text synthesised from the face reading.\<close>

definition emotionText :: "number_record \<Rightarrow> jsstring" where
  "emotionText emotions' =
     (let topEmotions =
            map fst (take 3 (sort_desc (filter (\<lambda>(k, v). v > 0.1) emotions')))
      in ustr ''I'm feeling '' @ join (ustr '', '') topEmotions
           @ ustr '' based on my facial expression.'')"

definition handleFaceEmotionDetected ::
  "analyze_api \<Rightarrow> number_record \<Rightarrow> real \<Rightarrow> MoodAnalyzerState
     \<Rightarrow> MoodAnalyzerState \<times> MoodAnalysisRequest list" where
  "handleFaceEmotionDetected api emotions' moodScore st =
     (let st1 = st\<lparr>MoodAnalyzerState.text' := emotionText emotions',
                    loading := True, error := None, result := None\<rparr>;
          req = \<lparr>MoodAnalysisRequest.text' = emotionText emotions',
                 user_id = Some (ustr ''default_user'')\<rparr>
      in (case api req of
            Inr response \<Rightarrow>
              (st1\<lparr>result := Some (response\<lparr>mood_analysis :=
                        (mood_analysis response)\<lparr>MoodAnalysis.mood_score := moodScore,
                                                  MoodAnalysis.emotions := emotions'\<rparr>\<rparr>),
                    loading := False\<rparr>, [req])
          | Inl err \<Rightarrow>
              (st1\<lparr>error := Some (or_else (detail err)
                        (ustr ''Failed to analyze mood. Please try again.'')),
                    loading := False\<rparr>, [req])))"

section \<open>MoodDashboard.tsx\<close>

text \<open>
  The body of the \<open>forEach\<close> callback of \<open>emotionData\<close>:
  \<open>if (!acc[emotion]) acc[emotion] = 0\<close>, then \<open>acc[emotion] += score\<close>. The test
  \<open>!acc[emotion]\<close> holds for a missing property and for the number 0. After the first
  statement the property exists, so the read of the second statement finds a number.
\<close>

definition add_score :: "number_record \<Rightarrow> jsstring \<Rightarrow> real \<Rightarrow> number_record" where
  "add_score acc emotion sc =
     (let acc1 = (case obj_get acc emotion of
                    None \<Rightarrow> obj_set acc emotion 0
                  | Some v \<Rightarrow> if v = 0 then obj_set acc emotion 0 else acc)
      in (case obj_get acc1 emotion of
            Some v \<Rightarrow> obj_set acc1 emotion (v + sc)
          | None \<Rightarrow> acc1))"

text \<open>\<open>Object.entries(entry.emotions || {})\<close>: a missing mapping counts as empty.\<close>

definition entry_emotions :: "MoodHistoryEntry \<Rightarrow> number_record" where
  "entry_emotions entry =
     (case MoodHistoryEntry.emotions entry of None \<Rightarrow> [] | Some e \<Rightarrow> e)"

definition emotionData :: "MoodHistoryEntry list \<Rightarrow> number_record" where
  "emotionData history =
     fold (\<lambda>entry acc. fold (\<lambda>(emotion, sc) acc'. add_score acc' emotion sc)
                              (entry_emotions entry) acc)
          history []"

definition topEmotions :: "MoodHistoryEntry list \<Rightarrow> (jsstring \<times> real) list" where
  "topEmotions history =
     map (\<lambda>(emotion, total). (emotion, total / real (length history)))
         (take 5 (sort_desc (emotionData history)))"








text \<open>
  The \<open>patterns\<close> object of the insights endpoint is untyped in the source; the summary
  cards read its optional fields \<open>average_mood\<close> and \<open>trend\<close>.
\<close>

record Patterns =
  average_mood :: "real option"
  trend :: "jsstring option"

text \<open>
  The state of the dashboard that decides what is rendered. The recommendations, the
  seeding flag and the toast flag play no part in the summary cards and are left out.
\<close>

record MoodDashboardState =
  history :: "MoodHistoryEntry list"
  patterns :: "Patterns option"
  loading :: bool

definition initialMoodDashboardState :: MoodDashboardState where
  "initialMoodDashboardState =
     \<lparr>history = [], patterns = None, MoodDashboardState.loading = True\<rparr>"

text \<open>
  \<open>loadDashboardData\<close>: the three requests are awaited together. \<open>Some\<close> carries the
  entries and the patterns of the responses, \<open>None\<close> stands for a rejected request (the
  error is only logged). \<open>loading\<close> is cleared in both cases.
\<close>

definition loadDashboardData ::
  "(MoodHistoryEntry list \<times> Patterns option) option \<Rightarrow> MoodDashboardState
     \<Rightarrow> MoodDashboardState" where
  "loadDashboardData fetched st =
     (case fetched of
        Some (entries, patternsData) \<Rightarrow>
          st\<lparr>history := entries, patterns := patternsData,
             MoodDashboardState.loading := False\<rparr>
      | None \<Rightarrow> st\<lparr>MoodDashboardState.loading := False\<rparr>)"

text \<open>
  What the component returns: the spinner, the no-data panel, or the dashboard with the
  texts of its summary cards and the data of the emotion chart.
\<close>

datatype DashboardView =
  LoadingView
  | NoDataView
  | DashboardView (averageMoodCard: jsstring) (totalEntriesCard: nat)
      (trendCard: jsstring) (emotionChart: "(jsstring \<times> real) list")

text \<open>
  \<open>patterns?.average_mood?.toFixed(1) || 'N/A'\<close>. The formatting method \<open>toFixed(1)\<close> of
  the language is a parameter.
\<close>

definition averageMoodText :: "(real \<Rightarrow> jsstring) \<Rightarrow> Patterns option \<Rightarrow> jsstring" where
  "averageMoodText toFixed1 p =
     or_else (case p of
                None \<Rightarrow> None
              | Some ps \<Rightarrow> (case average_mood ps of
                             None \<Rightarrow> None
                           | Some m \<Rightarrow> Some (toFixed1 m)))
             (ustr ''N/A'')"

text \<open>\<open>patterns?.trend || 'STABLE'\<close>.\<close>

definition trendText :: "Patterns option \<Rightarrow> jsstring" where
  "trendText p =
     or_else (case p of None \<Rightarrow> None | Some ps \<Rightarrow> trend ps) (ustr ''STABLE'')"

definition MoodDashboard :: "(real \<Rightarrow> jsstring) \<Rightarrow> MoodDashboardState \<Rightarrow> DashboardView" where
  "MoodDashboard toFixed1 st =
     (if MoodDashboardState.loading st then LoadingView
      else if length (history st) = 0 then NoDataView
      else DashboardView (averageMoodText toFixed1 (patterns st)) (length (history st))
             (trendText (patterns st)) (topEmotions (history st)))"

section \<open>The crisis checker of the server\<close>

text \<open>A phrase is present in a text when it occurs there as a contiguous part.\<close>

fun occurs_in :: "jsstring \<Rightarrow> jsstring \<Rightarrow> bool" where
  "occurs_in phrase [] = (phrase = [])"
| "occurs_in phrase (c # cs) =
     (take (length phrase) (c # cs) = phrase \<or> occurs_in phrase cs)"

text \<open>
  Modelled from the spec: the crisis checker of the server, which computes the
  \<open>crisis_check\<close> part of every response, is not among the sources. Section 4.2 of the
  specification gives its policy: the text is scanned for the fixed indicators; the risk
  level is HIGH if any high-severity indicator is present, MEDIUM if only moderate
  indicators are, else LOW; \<open>requires_immediate_attention\<close> is true iff the risk level is
  HIGH; the resources are the static catalog cut to a fixed count. The indicator lists,
  the catalog and the count are parameters.
\<close>

definition crisisCheck ::
  "jsstring list \<Rightarrow> jsstring list \<Rightarrow> Resource list \<Rightarrow> nat \<Rightarrow> jsstring \<Rightarrow> CrisisCheck" where
  "crisisCheck highIndicators moderateIndicators catalog limit txt =
     (let high = filter (\<lambda>phrase. occurs_in phrase txt) highIndicators;
          moderate = filter (\<lambda>phrase. occurs_in phrase txt) moderateIndicators;
          level = (if high \<noteq> [] then HIGH else if moderate \<noteq> [] then MEDIUM else LOW)
      in \<lparr>risk_level = level, indicators = high @ moderate,
          requires_immediate_attention = (level = HIGH),
          resources = take limit catalog, ai_reasoning = None,
          CrisisCheck.ai_enhanced = None\<rparr>)"

text \<open>The invariant of a crisis assessment.\<close>

definition attention_iff_high :: "CrisisCheck \<Rightarrow> bool" where
  "attention_iff_high c \<longleftrightarrow> (requires_immediate_attention c \<longleftrightarrow> risk_level c = HIGH)"

section \<open>Sample data\<close>

definition sample_response :: MoodAnalysisResponse where
  "sample_response =
     \<lparr>success = True,
      mood_analysis =
        \<lparr>MoodAnalysis.sentiment = \<lparr>label = ustr ''NEGATIVE'', score = 0.9\<rparr>,
         MoodAnalysis.emotions = [(ustr ''sadness'', 0.7)],
         MoodAnalysis.mood_score = 2, text_length = 50\<rparr>,
      crisis_check =
        \<lparr>risk_level = LOW, indicators = [], requires_immediate_attention = False,
         resources = [], ai_reasoning = None, CrisisCheck.ai_enhanced = None\<rparr>,
      recommendations = []\<rparr>"

definition sample_api :: analyze_api where
  "sample_api req = Inr sample_response"

definition sample_face :: number_record where
  "sample_face = [(ustr ''happy'', 0.8), (ustr ''sad'', 0.1), (ustr ''neutral'', 0.05)]"

definition sample_crisis_api :: analyze_api where
  "sample_crisis_api req =
     Inr (sample_response\<lparr>crisis_check :=
            crisisCheck [ustr ''hopeless''] [ustr ''sad''] [] 2 (MoodAnalysisRequest.text' req)\<rparr>)"

definition sample_entry :: MoodHistoryEntry where
  "sample_entry =
     \<lparr>timestamp = ustr ''2025-01-01T10:00:00'', MoodHistoryEntry.mood_score = 6,
      MoodHistoryEntry.sentiment = \<lparr>label = ustr ''POSITIVE'', score = 0.8\<rparr>,
      MoodHistoryEntry.emotions = Some [(ustr ''joy'', 0.6), (ustr ''sadness'', 0.1)],
      MoodHistoryEntry.text' = ustr ''a fine day''\<rparr>"


section \<open>Verification of calculateMoodScore\<close>

lemma score_loop_append: "score_loop s (xs @ ys) = score_loop (score_loop s xs) ys"
  by (induction xs arbitrary: s) auto

lemma score_loop_all_zero:
  "\<forall>p \<in> set xs. snd p = 0 \<Longrightarrow> score_loop s xs = s"
  by (induction xs arbitrary: s) auto

text \<open>Writing one property of an existing key, seen by the loop.\<close>

lemma score_loop_update_positive:
  "k \<in> set positiveEmotions \<Longrightarrow> v \<le> v' \<Longrightarrow> s \<le> s' \<Longrightarrow>
   score_loop s (map (\<lambda>(k', w). if k' = k then (k', v) else (k', w)) xs)
     \<le> score_loop s' (map (\<lambda>(k', w). if k' = k then (k', v') else (k', w)) xs)"
  by (induction xs arbitrary: s s') auto

lemma score_loop_update_negative:
  "k \<notin> set positiveEmotions \<Longrightarrow> k \<in> set negativeEmotions \<Longrightarrow> v \<le> v' \<Longrightarrow> s' \<le> s \<Longrightarrow>
   score_loop s' (map (\<lambda>(k', w). if k' = k then (k', v') else (k', w)) xs)
     \<le> score_loop s (map (\<lambda>(k', w). if k' = k then (k', v) else (k', w)) xs)"
  by (induction xs arbitrary: s s') auto

lemma score_loop_update_other:
  "k \<notin> set positiveEmotions \<Longrightarrow> k \<notin> set negativeEmotions \<Longrightarrow>
   score_loop s (map (\<lambda>(k', w). if k' = k then (k', v) else (k', w)) xs)
     = score_loop s (map (\<lambda>(k', w). if k' = k then (k', v') else (k', w)) xs)"
  by (induction xs arbitrary: s) auto

lemma positive_not_negative:
  "k \<in> set positiveEmotions \<Longrightarrow> k \<notin> set negativeEmotions"
  by (auto simp: positiveEmotions_def negativeEmotions_def ustr_def)

lemma score_loop_set_positive:
  assumes "k \<in> set positiveEmotions" and "v \<le> v'"
  shows "score_loop s (obj_set e k v) \<le> score_loop s (obj_set e k v')"
proof (cases "k \<in> fst ` set e")
  case True
  then show ?thesis
    using score_loop_update_positive [OF assms, of s s e] by (simp add: obj_set_def)
next
  case False
  then show ?thesis using assms by (simp add: obj_set_def score_loop_append)
qed

lemma score_loop_set_negative:
  assumes "k \<in> set negativeEmotions" and "v \<le> v'"
  shows "score_loop s (obj_set e k v') \<le> score_loop s (obj_set e k v)"
proof -
  have np: "k \<notin> set positiveEmotions"
    using assms(1) positive_not_negative by blast
  show ?thesis
  proof (cases "k \<in> fst ` set e")
    case True
    then show ?thesis
      using score_loop_update_negative [OF np assms, of s s e] by (simp add: obj_set_def)
  next
    case False
    then show ?thesis using assms np by (simp add: obj_set_def score_loop_append)
  qed
qed

lemma score_loop_set_other:
  assumes "k \<notin> set positiveEmotions" and "k \<notin> set negativeEmotions"
  shows "score_loop s (obj_set e k v) = score_loop s (obj_set e k v')"
proof (cases "k \<in> fst ` set e")
  case True
  then show ?thesis
    using score_loop_update_other [OF assms, of s v e v'] by (simp add: obj_set_def)
next
  case False
  then show ?thesis using assms by (simp add: obj_set_def score_loop_append)
qed

text \<open>
  Claim C3. When every intensity of the mapping is zero, \<open>calculateMoodScore\<close> returns
  exactly the neutral baseline 5.
\<close>

theorem calculateMoodScore_all_zero:
  "\<forall>p \<in> set expressions. snd p = 0 \<Longrightarrow> calculateMoodScore expressions = 5"
  by (simp add: calculateMoodScore_def score_loop_all_zero)

theorem calculateMoodScore_all_zero_witness:
  "list_all (\<lambda>p. snd p = 0) [(ustr ''happy'', 0::real), (ustr ''sad'', 0), (ustr ''neutral'', 0)]
   \<and> calculateMoodScore [(ustr ''happy'', 0), (ustr ''sad'', 0), (ustr ''neutral'', 0)] = 5"
  using calculateMoodScore_all_zero
    [of "[(ustr ''happy'', 0), (ustr ''sad'', 0), (ustr ''neutral'', 0)]"]
  by simp

text \<open>
  Claim C9. \<open>calculateMoodScore\<close> is monotone in each coordinate: raising the intensity
  stored under a positive emotion (happy, surprised) never lowers the score, raising the
  intensity stored under a negative emotion (sad, angry, fearful, disgusted) never raises
  it, and the intensity stored under any other name does not affect the score.
\<close>

theorem calculateMoodScore_monotone:
  "(k \<in> set positiveEmotions \<longrightarrow> v \<le> v' \<longrightarrow>
      calculateMoodScore (obj_set e k v) \<le> calculateMoodScore (obj_set e k v'))
   \<and> (k \<in> set negativeEmotions \<longrightarrow> v \<le> v' \<longrightarrow>
      calculateMoodScore (obj_set e k v') \<le> calculateMoodScore (obj_set e k v))
   \<and> (k \<notin> set positiveEmotions \<and> k \<notin> set negativeEmotions \<longrightarrow>
      calculateMoodScore (obj_set e k v) = calculateMoodScore (obj_set e k w))"
proof (intro conjI impI)
  assume "k \<in> set positiveEmotions" and "v \<le> v'"
  then have "score_loop 5 (obj_set e k v) \<le> score_loop 5 (obj_set e k v')"
    by (rule score_loop_set_positive)
  then show "calculateMoodScore (obj_set e k v) \<le> calculateMoodScore (obj_set e k v')"
    by (simp add: calculateMoodScore_def)
next
  assume "k \<in> set negativeEmotions" and "v \<le> v'"
  then have "score_loop 5 (obj_set e k v') \<le> score_loop 5 (obj_set e k v)"
    by (rule score_loop_set_negative)
  then show "calculateMoodScore (obj_set e k v') \<le> calculateMoodScore (obj_set e k v)"
    by (simp add: calculateMoodScore_def)
next
  assume "k \<notin> set positiveEmotions \<and> k \<notin> set negativeEmotions"
  then have "score_loop 5 (obj_set e k v) = score_loop 5 (obj_set e k w)"
    using score_loop_set_other by blast
  then show "calculateMoodScore (obj_set e k v) = calculateMoodScore (obj_set e k w)"
    by (simp add: calculateMoodScore_def)
qed

theorem calculateMoodScore_monotone_witness:
  "calculateMoodScore (obj_set sample_face (ustr ''happy'') 0.2) = 5.3
   \<and> calculateMoodScore (obj_set sample_face (ustr ''happy'') 0.9) = 7.4
   \<and> calculateMoodScore (obj_set sample_face (ustr ''happy'') 0.2)
       \<le> calculateMoodScore (obj_set sample_face (ustr ''happy'') 0.9)
   \<and> calculateMoodScore (obj_set sample_face (ustr ''angry'') 0.1) = 6.8
   \<and> calculateMoodScore (obj_set sample_face (ustr ''angry'') 0.5) = 5.6
   \<and> calculateMoodScore (obj_set sample_face (ustr ''angry'') 0.5)
       \<le> calculateMoodScore (obj_set sample_face (ustr ''angry'') 0.1)
   \<and> calculateMoodScore (obj_set sample_face (ustr ''neutral'') 0.05)
       = calculateMoodScore (obj_set sample_face (ustr ''neutral'') 0.9)"
proof -
  have p: "ustr ''happy'' \<in> set positiveEmotions"
    by (simp add: positiveEmotions_def)
  have n: "ustr ''angry'' \<in> set negativeEmotions"
    by (simp add: negativeEmotions_def)
  have o: "ustr ''neutral'' \<notin> set positiveEmotions \<and> ustr ''neutral'' \<notin> set negativeEmotions"
    by (simp add: positiveEmotions_def negativeEmotions_def ustr_def)
  have a: "calculateMoodScore (obj_set sample_face (ustr ''happy'') 0.2) = 5.3"
    by (simp add: calculateMoodScore_def obj_set_def sample_face_def positiveEmotions_def
        negativeEmotions_def ustr_def)
  have b: "calculateMoodScore (obj_set sample_face (ustr ''happy'') 0.9) = 7.4"
    by (simp add: calculateMoodScore_def obj_set_def sample_face_def positiveEmotions_def
        negativeEmotions_def ustr_def)
  have c: "calculateMoodScore (obj_set sample_face (ustr ''angry'') 0.1) = 6.8"
    by (simp add: calculateMoodScore_def obj_set_def sample_face_def positiveEmotions_def
        negativeEmotions_def ustr_def)
  have d: "calculateMoodScore (obj_set sample_face (ustr ''angry'') 0.5) = 5.6"
    by (simp add: calculateMoodScore_def obj_set_def sample_face_def positiveEmotions_def
        negativeEmotions_def ustr_def)
  show ?thesis
    using calculateMoodScore_monotone [of "ustr ''happy''" "0.2" "0.9" sample_face]
      calculateMoodScore_monotone [of "ustr ''angry''" "0.1" "0.5" sample_face]
      calculateMoodScore_monotone [of "ustr ''neutral''" "0.05" _ sample_face "0.9"]
      p n o a b c d
    by simp
qed

section \<open>Verification of calculateMoodScore on doubles\<close>

lemma expo_top: "2 powi (int k - 1021) \<le> a \<Longrightarrow> expo (Suc k) a = int k - 1021"
  by simp

lemma expo_sub: "a < 2 powi (- 1021) \<Longrightarrow> expo k a = - 1022"
proof (induction k)
  case 0
  show ?case by simp
next
  case (Suc k)
  have "(2::real) powi (- 1021) \<le> 2 powi (int k - 1021)"
    by (rule power_int_increasing) simp_all
  with Suc.prems have "\<not> 2 powi (int k - 1021) \<le> a" by linarith
  with Suc show ?case by simp
qed

lemma expo_eq:
  "2 powi e \<le> a \<Longrightarrow> a < 2 powi (e + 1) \<Longrightarrow> - 1022 \<le> e \<Longrightarrow> e \<le> int k - 1022
     \<Longrightarrow> expo k a = e"
proof (induction k)
  case 0
  then show ?case by simp
next
  case (Suc k)
  show ?case
  proof (cases "2 powi (int k - 1021) \<le> a")
    case True
    with Suc.prems(2) have "(2::real) powi (int k - 1021) < 2 powi (e + 1)" by linarith
    then have "int k - 1021 < e + 1"
      by (smt (verit) power_int_increasing)
    with Suc.prems(4) have "e = int k - 1021" by simp
    with True show ?thesis by simp
  next
    case False
    with Suc.prems(1) have "(2::real) powi e < 2 powi (int k - 1021)" by linarith
    then have "e < int k - 1021"
      by (smt (verit) power_int_increasing)
    then have "e \<le> int k - 1022" by simp
    with False Suc show ?thesis by simp
  qed
qed

lemma round_double_at:
  assumes "2 powi e \<le> \<bar>x\<bar>" and "\<bar>x\<bar> < 2 powi (e + 1) \<or> e = 1023"
    and "- 1022 \<le> e" and "e \<le> 1023"
  shows "round_double x =
     (let q = 2 powi (e - 52); y = of_int (round_half_even (\<bar>x\<bar> / q)) * q
      in if 2 powi 1024 \<le> y then (if 0 < x then PosInf else NegInf)
         else Num (if 0 \<le> x then y else - y))"
proof -
  have e: "expo 2045 \<bar>x\<bar> = e"
  proof (cases "e = 1023")
    case True
    with assms(1) show ?thesis using expo_top [of 2044 "\<bar>x\<bar>"] by simp
  next
    case False
    with assms show ?thesis by (intro expo_eq) simp_all
  qed
  show ?thesis unfolding round_double_def Let_def e by (rule refl)
qed


lemma expo_cases: "expo k a = - 1022 \<or> 2 powi (expo k a) \<le> a"
  by (induction k) auto

lemma round_half_even_le: "x \<le> of_int K \<Longrightarrow> round_half_even x \<le> K"
proof -
  assume x: "x \<le> of_int K"
  then have f: "\<lfloor>x\<rfloor> \<le> K" by (simp add: floor_le_iff)
  show ?thesis
  proof (cases "\<lfloor>x\<rfloor> = K")
    case True
    then have "of_int K \<le> x" by (metis of_int_floor_le)
    with x have "x = of_int K" by simp
    then show ?thesis by (simp add: round_half_even_def)
  next
    case False
    with f have "\<lfloor>x\<rfloor> + 1 \<le> K" by simp
    then show ?thesis by (auto simp: round_half_even_def Let_def)
  qed
qed

lemma round_half_even_nonneg: "0 \<le> x \<Longrightarrow> 0 \<le> round_half_even x"
  by (auto simp: round_half_even_def Let_def)

lemma round_double_bounded:
  assumes x: "\<bar>x\<bar> \<le> of_int M" and M: "0 < M" "M \<le> 2 ^ 52"
  shows "\<exists>y. round_double x = Num y \<and> \<bar>y\<bar> \<le> of_int M"
proof -
  define a where "a = \<bar>x\<bar>"
  define e where "e = expo 2045 a"
  define q :: real where "q = 2 powi (e - 52)"
  define n where "n = round_half_even (a / q)"
  have q: "0 < q" by (simp add: q_def)
  have e52: "e \<le> 52"
  proof (rule ccontr)
    assume "\<not> e \<le> 52"
    then have e: "52 < e" by simp
    then have "e \<noteq> - 1022" by simp
    with expo_cases [of 2045 a] have "2 powi e \<le> a" by (simp add: e_def)
    moreover have "(2::real) powi 52 < 2 powi e"
      using e by (intro power_int_strict_increasing) simp_all
    moreover have "a \<le> 2 ^ 52"
    proof -
      have "real_of_int M \<le> real_of_int (2 ^ 52)" using M(2) by (simp only: of_int_le_iff)
      with x show ?thesis by (simp add: a_def)
    qed
    ultimately show False by simp
  qed
  define K where "K = M * 2 ^ nat (52 - e)"
  have "(2::real) powi (52 - e) = 2 ^ nat (52 - e)"
    using e52 by (simp add: power_int_def)
  moreover have "(2::real) powi (52 - e) * 2 powi (e - 52) = 1"
    by (simp flip: power_int_add)
  ultimately have Kq: "of_int K * q = of_int M"
    by (simp add: K_def q_def mult.assoc)
  then have "of_int M / q = of_int K"
    using q by (simp add: field_simps)
  moreover have "a / q \<le> of_int M / q"
    using x q by (simp add: a_def divide_right_mono)
  ultimately have "n \<le> K"
    unfolding n_def by (intro round_half_even_le) simp
  moreover have n0: "0 \<le> n"
    unfolding n_def using q by (intro round_half_even_nonneg) (simp add: a_def)
  ultimately have y: "of_int n * q \<le> of_int M" "0 \<le> of_int n * q"
    using q Kq by (metis mult_right_mono of_int_le_iff less_imp_le, simp)
  have "real_of_int M \<le> real_of_int (2 ^ 52)" using M(2) by (simp only: of_int_le_iff)
  then have "of_int M < (2::real) powi 1024" by simp
  with y have small: "\<not> 2 powi 1024 \<le> of_int n * q" by simp
  have "round_double x = Num (if 0 \<le> x then of_int n * q else - (of_int n * q))"
    unfolding round_double_def Let_def using small
    unfolding n_def q_def e_def a_def by simp
  with y show ?thesis by auto
qed


text \<open>
  What the clamp achieves: the result is NaN or lies between 0 and 10, and it is a number
  between 0 and 10 whenever the magnitudes are at most \<open>B\<close> and \<open>5 + 3 * B * n\<close> does not
  exceed \<open>2 ^ 52\<close> for the \<open>n\<close> entries, as for intensities between 0 and 1.
\<close>

lemma clamp_double:
  "calculateMoodScore_double xs = NaN
   \<or> (\<exists>y. calculateMoodScore_double xs = Num y \<and> 0 \<le> y \<and> y \<le> 10)"
  by (cases "score_loop_double (Num 5) xs")
     (auto simp: calculateMoodScore_double_def Math_max_def Math_min_def)

lemma clamp_double_Num:
  "score_loop_double (Num 5) xs = Num s
   \<Longrightarrow> \<exists>y. calculateMoodScore_double xs = Num y \<and> 0 \<le> y \<and> y \<le> 10"
  by (auto simp: calculateMoodScore_double_def Math_max_def Math_min_def)

lemma step_bounded:
  assumes v: "magnitude_at_most B v" and B: "0 < B"
    and s: "\<bar>s\<bar> \<le> of_int M" and M: "0 < M" "M + 3 * int B \<le> 2 ^ 52"
  shows "\<exists>s'. js_add (Num s) (js_mul v (Num 3)) = Num s' \<and> \<bar>s'\<bar> \<le> of_int (M + 3 * int B)"
    and "\<exists>s'. js_sub (Num s) (js_mul v (Num 3)) = Num s' \<and> \<bar>s'\<bar> \<le> of_int (M + 3 * int B)"
proof -
  from v obtain w where w: "v = Num w" "\<bar>w\<bar> \<le> real B"
    by (auto simp: magnitude_at_most_def split: jsnumber.splits)
  have "\<bar>w * 3\<bar> \<le> of_int (3 * int B)" using w(2) by simp
  moreover have "0 < 3 * int B" "3 * int B \<le> 2 ^ 52" using B M by simp_all
  ultimately obtain t where t: "round_double (w * 3) = Num t" "\<bar>t\<bar> \<le> of_int (3 * int B)"
    using round_double_bounded by blast
  have b: "0 < M + 3 * int B" using M B by simp
  have "\<bar>s + t\<bar> \<le> of_int (M + 3 * int B)" using s t(2) by simp
  then obtain u where "round_double (s + t) = Num u" "\<bar>u\<bar> \<le> of_int (M + 3 * int B)"
    using round_double_bounded [OF _ b M(2)] by blast
  then show "\<exists>s'. js_add (Num s) (js_mul v (Num 3)) = Num s' \<and> \<bar>s'\<bar> \<le> of_int (M + 3 * int B)"
    by (simp add: w(1) t(1))
  have "\<bar>s + - t\<bar> \<le> of_int (M + 3 * int B)" using s t(2) by simp
  then obtain u where "round_double (s + - t) = Num u" "\<bar>u\<bar> \<le> of_int (M + 3 * int B)"
    using round_double_bounded [OF _ b M(2)] by blast
  then show "\<exists>s'. js_sub (Num s) (js_mul v (Num 3)) = Num s' \<and> \<bar>s'\<bar> \<le> of_int (M + 3 * int B)"
    by (simp add: w(1) t(1) js_sub_def)
qed

lemma score_loop_double_bounded:
  assumes "\<forall>p \<in> set xs. magnitude_at_most B (snd p)" and "0 < B"
    and "\<bar>s\<bar> \<le> of_int M" and "0 < M" and "M + 3 * int B * int (length xs) \<le> 2 ^ 52"
  shows "\<exists>s'. score_loop_double (Num s) xs = Num s'"
  using assms
proof (induction xs arbitrary: s M)
  case Nil
  show ?case by simp
next
  case (Cons p xs)
  obtain k v where p: "p = (k, v)" by (cases p)
  have v: "magnitude_at_most B v" using Cons.prems(1) by (simp add: p)
  have rest: "\<forall>p \<in> set xs. magnitude_at_most B (snd p)" using Cons.prems(1) by simp
  have len: "M + 3 * int B + 3 * int B * int (length xs) \<le> 2 ^ 52"
    using Cons.prems(5) by (simp add: algebra_simps)
  have "0 \<le> 3 * int B * int (length xs)" by simp
  with len have M3: "M + 3 * int B \<le> 2 ^ 52" by linarith
  have pos: "0 < M + 3 * int B" using Cons.prems(2,4) by simp
  have same: "M + 3 * int B * int (length xs) \<le> 2 ^ 52"
    using len Cons.prems(2) by simp
  note st = step_bounded [OF v Cons.prems(2) Cons.prems(3) Cons.prems(4) M3]
  show ?case
  proof (cases "k \<in> set positiveEmotions")
    case True
    from st(1) obtain s' where s': "js_add (Num s) (js_mul v (Num 3)) = Num s'"
      "\<bar>s'\<bar> \<le> of_int (M + 3 * int B)" by blast
    from Cons.IH [OF rest Cons.prems(2) s'(2) pos len] show ?thesis
      using True by (simp add: p s'(1))
  next
    case False
    show ?thesis
    proof (cases "k \<in> set negativeEmotions")
      case True
      from st(2) obtain s' where s': "js_sub (Num s) (js_mul v (Num 3)) = Num s'"
        "\<bar>s'\<bar> \<le> of_int (M + 3 * int B)" by blast
      from Cons.IH [OF rest Cons.prems(2) s'(2) pos len] show ?thesis
        using True False by (simp add: p s'(1))
    next
      case neither: False
      from Cons.IH [OF rest Cons.prems(2) Cons.prems(3) Cons.prems(4) same] show ?thesis
        using False neither by (simp add: p)
    qed
  qed
qed

lemma calculateMoodScore_double_bounded:
  assumes "\<forall>p \<in> set xs. magnitude_at_most B (snd p)" and "0 < B"
    and "5 + 3 * int B * int (length xs) \<le> 2 ^ 52"
  shows "\<exists>y. calculateMoodScore_double xs = Num y \<and> 0 \<le> y \<and> y \<le> 10"
proof -
  have "\<bar>5::real\<bar> \<le> of_int 5" by simp
  from score_loop_double_bounded [OF assms(1) assms(2) this _ assms(3)]
  obtain s where "score_loop_double (Num 5) xs = Num s" by auto
  then show ?thesis by (rule clamp_double_Num)
qed

text \<open>The literals and the operations of the two examples, rounded.\<close>

lemma lit_08: "round_double (8 / 10) = Num (3602879701896397 / 4503599627370496)"
  by (simp add: round_double_at [where e = "- 1"] round_half_even_def Let_def power_int_minus)



lemma lit_01: "round_double (1 / 10) = Num (3602879701896397 / 36028797018963968)"
  by (simp add: round_double_at [where e = "- 4"] round_half_even_def Let_def power_int_minus)

lemma lit_71: "round_double (71 / 10) = Num (3996944669291315 / 562949953421312)"
  by (simp add: round_double_at [where e = 2] round_half_even_def Let_def power_int_minus)

lemma mul_08: "js_mul (Num (3602879701896397 / 4503599627370496)) (Num 3)
    = Num (1351079888211149 / 562949953421312)"
  by (simp add: round_double_at [where e = 1] round_half_even_def Let_def power_int_minus)

lemma mul_01: "js_mul (Num (3602879701896397 / 36028797018963968)) (Num 3)
    = Num (1351079888211149 / 4503599627370496)"
  by (simp add: round_double_at [where e = "- 2"] round_half_even_def Let_def power_int_minus)

lemma add_5: "js_add (Num 5) (Num (1351079888211149 / 562949953421312))
    = Num (4165829655317709 / 562949953421312)"
  by (simp add: round_double_at [where e = 2] round_half_even_def Let_def power_int_minus)

lemma sub_74: "js_sub (Num (4165829655317709 / 562949953421312)) (Num (1351079888211149 / 4503599627370496))
    = Num (7993889338582631 / 1125899906842624)"
  by (simp add: js_sub_def round_double_at [where e = 2] round_half_even_def Let_def power_int_minus)


lemma example_double:
  "calculateMoodScore_double [(ustr ''happy'', round_double (8 / 10)), (ustr ''sad'', round_double (1 / 10))]
     = Num (7993889338582631 / 1125899906842624)"
proof -
  have "score_loop_double (Num 5) [(ustr ''happy'', h), (ustr ''sad'', d)]
      = js_sub (js_add (Num 5) (js_mul h (Num 3))) (js_mul d (Num 3))" for h d
    by (simp add: positiveEmotions_def negativeEmotions_def ustr_def)
  then have "score_loop_double (Num 5)
        [(ustr ''happy'', round_double (8 / 10)), (ustr ''sad'', round_double (1 / 10))]
      = Num (7993889338582631 / 1125899906842624)"
    by (simp only: lit_08 lit_01 mul_08 mul_01 add_5 sub_74)
  then show ?thesis
    by (simp add: calculateMoodScore_double_def Math_max_def Math_min_def)
qed


text \<open>
  Claim C4, as stated: for the mapping with happy 0.8 and sad 0.1 \<open>calculateMoodScore\<close>
  returns 7.1. It does not: the value returned is neither the double that the literal 7.1
  denotes nor the real 7.1.
\<close>

theorem calculateMoodScore_example_counterexample:
  "calculateMoodScore_double
     [(ustr ''happy'', round_double (8 / 10)), (ustr ''sad'', round_double (1 / 10))]
     \<noteq> round_double (71 / 10)
   \<and> calculateMoodScore_double
       [(ustr ''happy'', round_double (8 / 10)), (ustr ''sad'', round_double (1 / 10))]
     \<noteq> Num (71 / 10)"
  unfolding example_double lit_71 by simp

text \<open>
  Claim C4, amended. For the mapping with happy 0.8 and sad 0.1 \<open>calculateMoodScore\<close>
  returns 5 + 0.8 * 3 - 0.1 * 3 as double arithmetic evaluates it: the double
  7.1000000000000005, which is 7993889338582631 / 2 ^ 50, the double next above the one
  that the literal 7.1 denotes, and within 10 ^ -15 of 7.1, the value of the expression
  in exact arithmetic.
\<close>

theorem calculateMoodScore_example_double:
  "calculateMoodScore_double
     [(ustr ''happy'', round_double (8 / 10)), (ustr ''sad'', round_double (1 / 10))]
     = Num (7993889338582631 / 2 ^ 50)
   \<and> round_double (71 / 10) = Num (7993889338582630 / 2 ^ 50)
   \<and> \<bar>7993889338582631 / 2 ^ 50 - 71 / 10\<bar> < (1 / 10 ^ 15 :: real)
   \<and> calculateMoodScore [(ustr ''happy'', 8 / 10), (ustr ''sad'', 1 / 10)] = 71 / 10"
proof (intro conjI)
  show "calculateMoodScore_double
     [(ustr ''happy'', round_double (8 / 10)), (ustr ''sad'', round_double (1 / 10))]
     = Num (7993889338582631 / 2 ^ 50)"
    unfolding example_double by simp
  show "round_double (71 / 10) = Num (7993889338582630 / 2 ^ 50)"
    unfolding lit_71 by simp
  show "\<bar>7993889338582631 / 2 ^ 50 - 71 / 10\<bar> < (1 / 10 ^ 15 :: real)"
    by simp
  show "calculateMoodScore [(ustr ''happy'', 8 / 10), (ustr ''sad'', 1 / 10)] = 71 / 10"
    by (simp add: calculateMoodScore_def positiveEmotions_def negativeEmotions_def ustr_def)
qed

section \<open>Verification of MoodAnalyzer\<close>

lemma trim_blank: "\<forall>c \<in> set s. isWhiteSpace c \<Longrightarrow> trim s = []"
proof -
  assume "\<forall>c \<in> set s. isWhiteSpace c"
  then have d: "dropWhile isWhiteSpace s = []" by simp
  show ?thesis unfolding trim_def d by simp
qed

text \<open>
  Claim C7. When the text is empty or consists only of white space, \<open>handleAnalyze\<close>
  rejects the input: the error message is set, no request is sent to the server, and no
  result is produced (the \<open>result\<close> state is left as it was).
\<close>

theorem handleAnalyze_blank_rejected:
  assumes "\<forall>c \<in> set (MoodAnalyzerState.text' st). isWhiteSpace c"
  shows "handleAnalyze api st
           = (st\<lparr>error := Some (ustr ''Please enter some text to analyze'')\<rparr>, [])
         \<and> snd (handleAnalyze api st) = []
         \<and> result (fst (handleAnalyze api st)) = result st
         \<and> error (fst (handleAnalyze api st))
             = Some (ustr ''Please enter some text to analyze'')"
  using assms by (simp add: handleAnalyze_def trim_blank)

theorem handleAnalyze_blank_rejected_witness:
  "list_all isWhiteSpace [0x20, 0x09, 0x3000, 0x0A]
   \<and> handleAnalyze sample_api
        (initialMoodAnalyzerState\<lparr>MoodAnalyzerState.text' := [0x20, 0x09, 0x3000, 0x0A]\<rparr>)
      = (\<lparr>MoodAnalyzerState.text' = [0x20, 0x09, 0x3000, 0x0A], loading = False,
          result = None, error = Some (ustr ''Please enter some text to analyze'')\<rparr>, [])
   \<and> handleAnalyze sample_api initialMoodAnalyzerState
      = (\<lparr>MoodAnalyzerState.text' = [], loading = False,
          result = None, error = Some (ustr ''Please enter some text to analyze'')\<rparr>, [])"
  using handleAnalyze_blank_rejected
    [of "initialMoodAnalyzerState\<lparr>MoodAnalyzerState.text' := [0x20, 0x09, 0x3000, 0x0A]\<rparr>"
        sample_api]
    handleAnalyze_blank_rejected [of initialMoodAnalyzerState sample_api]
  by (simp add: initialMoodAnalyzerState_def isWhiteSpace_def)

text \<open>
  Claim C5. When the face scanner supplies a mood score, every result that
  \<open>handleFaceEmotionDetected\<close> stores carries exactly that score as
  \<open>mood_analysis.mood_score\<close>, whatever text-derived score the server returned, and a
  response of the server always leads to such a result: the override replaces the score,
  it does not blend the two.
\<close>

theorem face_score_replaces_text_score:
  "(\<forall>r. result (fst (handleFaceEmotionDetected api e m st)) = Some r
        \<longrightarrow> MoodAnalysis.mood_score (mood_analysis r) = m)
   \<and> (\<forall>resp. api \<lparr>MoodAnalysisRequest.text' = emotionText e,
                    user_id = Some (ustr ''default_user'')\<rparr> = Inr resp
        \<longrightarrow> (\<exists>r. result (fst (handleFaceEmotionDetected api e m st)) = Some r
                 \<and> MoodAnalysis.mood_score (mood_analysis r) = m))"
  by (auto simp: handleFaceEmotionDetected_def Let_def split: sum.splits)

theorem face_score_replaces_text_score_witness:
  "MoodAnalysis.mood_score (mood_analysis sample_response) = 2
   \<and> (\<exists>r. result (fst (handleFaceEmotionDetected sample_api sample_face 7.1
                        initialMoodAnalyzerState)) = Some r
          \<and> MoodAnalysis.mood_score (mood_analysis r) = 7.1)"
  using face_score_replaces_text_score
    [of sample_api sample_face "7.1" initialMoodAnalyzerState]
  by (simp add: sample_api_def sample_response_def)

text \<open>
  Claim C10. On the face-scan path the stored result is the response of the server with
  exactly \<open>mood_analysis.mood_score\<close> and \<open>mood_analysis.emotions\<close> replaced (by the face
  score and by the face-detected expressions); sentiment, text_length, crisis_check and
  recommendations are those of the response computed for the synthesised text.
\<close>

theorem face_override_frame:
  assumes "api \<lparr>MoodAnalysisRequest.text' = emotionText e,
                user_id = Some (ustr ''default_user'')\<rparr> = Inr resp"
  shows "\<exists>r. result (fst (handleFaceEmotionDetected api e m st)) = Some r
           \<and> r = resp\<lparr>mood_analysis :=
                   (mood_analysis resp)\<lparr>MoodAnalysis.mood_score := m,
                                         MoodAnalysis.emotions := e\<rparr>\<rparr>
           \<and> MoodAnalysis.mood_score (mood_analysis r) = m
           \<and> MoodAnalysis.emotions (mood_analysis r) = e
           \<and> MoodAnalysis.sentiment (mood_analysis r)
               = MoodAnalysis.sentiment (mood_analysis resp)
           \<and> text_length (mood_analysis r) = text_length (mood_analysis resp)
           \<and> crisis_check r = crisis_check resp
           \<and> recommendations r = recommendations resp
           \<and> success r = success resp"
  using assms by (simp add: handleFaceEmotionDetected_def Let_def)

theorem face_override_frame_witness:
  "sample_api \<lparr>MoodAnalysisRequest.text' = emotionText sample_face,
               user_id = Some (ustr ''default_user'')\<rparr> = Inr sample_response
   \<and> result (fst (handleFaceEmotionDetected sample_api sample_face 7.1
                    initialMoodAnalyzerState))
      = Some \<lparr>success = True,
              mood_analysis =
                \<lparr>MoodAnalysis.sentiment = \<lparr>label = ustr ''NEGATIVE'', score = 0.9\<rparr>,
                 MoodAnalysis.emotions = sample_face,
                 MoodAnalysis.mood_score = 7.1, text_length = 50\<rparr>,
              crisis_check =
                \<lparr>risk_level = LOW, indicators = [], requires_immediate_attention = False,
                 resources = [], ai_reasoning = None, CrisisCheck.ai_enhanced = None\<rparr>,
              recommendations = []\<rparr>"
proof -
  have h: "sample_api \<lparr>MoodAnalysisRequest.text' = emotionText sample_face,
               user_id = Some (ustr ''default_user'')\<rparr> = Inr sample_response"
    by (simp add: sample_api_def)
  show ?thesis
    using h face_override_frame
      [of sample_api sample_face sample_response "7.1" initialMoodAnalyzerState]
    by (auto simp: sample_response_def)
qed

section \<open>Verification of the crisis invariant\<close>

lemma crisisCheck_attention: "attention_iff_high (crisisCheck H M cat n txt)"
  by (simp add: attention_iff_high_def crisisCheck_def Let_def)

text \<open>
  Claim C1. In every analysis result, \<open>requires_immediate_attention\<close> is true iff
  \<open>risk_level\<close> is HIGH: it holds for every assessment of the crisis checker, and, the
  server answering with such assessments, for every result that \<open>handleAnalyze\<close> and
  \<open>handleFaceEmotionDetected\<close> leave in the state of the component, so that the crisis
  alert is rendered exactly for the results of HIGH risk.
\<close>

theorem crisis_attention_iff_high:
  assumes server: "\<forall>req r. api req = Inr r \<longrightarrow>
             crisis_check r = crisisCheck H M cat n (MoodAnalysisRequest.text' req)"
    and before: "\<forall>r. result st = Some r \<longrightarrow> attention_iff_high (crisis_check r)"
  shows "attention_iff_high (crisisCheck H M cat n txt)
     \<and> (\<forall>r. result (fst (handleAnalyze api st)) = Some r
            \<longrightarrow> (requires_immediate_attention (crisis_check r)
                   \<longleftrightarrow> risk_level (crisis_check r) = HIGH))
     \<and> (\<forall>r. result (fst (handleFaceEmotionDetected api e m st)) = Some r
            \<longrightarrow> (requires_immediate_attention (crisis_check r)
                   \<longleftrightarrow> risk_level (crisis_check r) = HIGH))
     \<and> (\<forall>r. result (fst (handleAnalyze api st)) = Some r
              \<or> result (fst (handleFaceEmotionDetected api e m st)) = Some r
            \<longrightarrow> (crisisAlertShown r \<longleftrightarrow> risk_level (crisis_check r) = HIGH))"
proof -
  have "attention_iff_high (crisisCheck H M cat n txt)
     \<and> (\<forall>r. result (fst (handleAnalyze api st)) = Some r
            \<longrightarrow> (requires_immediate_attention (crisis_check r)
                   \<longleftrightarrow> risk_level (crisis_check r) = HIGH))
     \<and> (\<forall>r. result (fst (handleFaceEmotionDetected api e m st)) = Some r
            \<longrightarrow> (requires_immediate_attention (crisis_check r)
                   \<longleftrightarrow> risk_level (crisis_check r) = HIGH))"
  proof (intro conjI allI impI)
    show "attention_iff_high (crisisCheck H M cat n txt)"
      by (rule crisisCheck_attention)
  next
    fix r
    assume r: "result (fst (handleAnalyze api st)) = Some r"
    show "requires_immediate_attention (crisis_check r) \<longleftrightarrow> risk_level (crisis_check r) = HIGH"
    proof (cases "trim (MoodAnalyzerState.text' st) = []")
      case True
      with r have "result st = Some r" by (simp add: handleAnalyze_def)
      with before show ?thesis by (simp add: attention_iff_high_def)
    next
      case False
      with r obtain req where "api req = Inr r"
        by (auto simp: handleAnalyze_def Let_def split: sum.splits)
      with server have "crisis_check r = crisisCheck H M cat n (MoodAnalysisRequest.text' req)"
        by blast
      then show ?thesis
        using crisisCheck_attention [of H M cat n "MoodAnalysisRequest.text' req"]
        by (simp add: attention_iff_high_def)
    qed
  next
    fix r
    assume r: "result (fst (handleFaceEmotionDetected api e m st)) = Some r"
    then obtain req resp where a: "api req = Inr resp" and c: "crisis_check r = crisis_check resp"
      by (auto simp: handleFaceEmotionDetected_def Let_def split: sum.splits)
    from server a have "crisis_check resp = crisisCheck H M cat n (MoodAnalysisRequest.text' req)"
      by blast
    with c show "requires_immediate_attention (crisis_check r) \<longleftrightarrow> risk_level (crisis_check r) = HIGH"
      using crisisCheck_attention [of H M cat n "MoodAnalysisRequest.text' req"]
      by (simp add: attention_iff_high_def)
  qed
  then show ?thesis
    unfolding crisisAlertShown_def by blast
qed

theorem crisis_attention_iff_high_witness:
  "(\<exists>r. result (fst (handleAnalyze sample_crisis_api
           (initialMoodAnalyzerState\<lparr>MoodAnalyzerState.text' := ustr ''I feel hopeless''\<rparr>)))
         = Some r
        \<and> risk_level (crisis_check r) = HIGH
        \<and> requires_immediate_attention (crisis_check r)
        \<and> crisisAlertShown r)
   \<and> (\<exists>r. result (fst (handleFaceEmotionDetected sample_crisis_api sample_face 7.1
           (initialMoodAnalyzerState\<lparr>MoodAnalyzerState.text' := ustr ''I feel hopeless''\<rparr>)))
         = Some r
        \<and> risk_level (crisis_check r) = LOW
        \<and> \<not> requires_immediate_attention (crisis_check r)
        \<and> \<not> crisisAlertShown r)"
proof -
  have server: "\<forall>req r. sample_crisis_api req = Inr r \<longrightarrow>
      crisis_check r = crisisCheck [ustr ''hopeless''] [ustr ''sad''] [] 2
                         (MoodAnalysisRequest.text' req)"
    by (auto simp: sample_crisis_api_def)
  have before: "\<forall>r. result (initialMoodAnalyzerState\<lparr>MoodAnalyzerState.text' := ustr ''I feel hopeless''\<rparr>) = Some r
      \<longrightarrow> attention_iff_high (crisis_check r)"
    by (simp add: initialMoodAnalyzerState_def)
  have 1: "risk_level (crisisCheck [ustr ''hopeless''] [ustr ''sad''] [] 2 (ustr ''I feel hopeless'')) = HIGH"
    by (simp add: crisisCheck_def ustr_def)
  have 2: "risk_level (crisisCheck [ustr ''hopeless''] [ustr ''sad''] [] 2 (emotionText sample_face)) = LOW"
    by (simp add: crisisCheck_def ustr_def emotionText_def sample_face_def sort_desc_def)
  have 3: "trim (ustr ''I feel hopeless'') \<noteq> []"
    by (simp add: trim_def ustr_def isWhiteSpace_def)
  show ?thesis
    using crisis_attention_iff_high [OF server before, of "[]" sample_face "7.1"] 1 2 3
    by (simp add: handleAnalyze_def handleFaceEmotionDetected_def Let_def
        sample_crisis_api_def initialMoodAnalyzerState_def crisisAlertShown_def)
qed

section \<open>Verification of MoodDashboard\<close>

text \<open>
  Claim C8. For an empty history window the dashboard yields the no-data output rather
  than an error or a zero average: once loading has finished it renders the no-data
  panel, and a missing average mood is displayed as the sentinel N/A.
\<close>

theorem empty_history_no_data:
  "(\<not> MoodDashboardState.loading st \<and> history st = []
       \<longrightarrow> MoodDashboard fmt st = NoDataView)
   \<and> MoodDashboard fmt (loadDashboardData (Some ([], p)) st) = NoDataView
   \<and> MoodDashboard fmt (loadDashboardData None initialMoodDashboardState) = NoDataView
   \<and> averageMoodText fmt None = ustr ''N/A''
   \<and> (average_mood ps = None \<longrightarrow> averageMoodText fmt (Some ps) = ustr ''N/A'')
   \<and> (\<not> MoodDashboardState.loading st \<and> history st \<noteq> []
        \<and> (patterns st = None \<or> patterns st = Some ps \<and> average_mood ps = None)
       \<longrightarrow> averageMoodCard (MoodDashboard fmt st) = ustr ''N/A'')"
  by (auto simp: MoodDashboard_def loadDashboardData_def initialMoodDashboardState_def
      averageMoodText_def or_else_def)

theorem empty_history_no_data_witness:
  "MoodDashboard (\<lambda>x. ustr ''0.0'')
     (loadDashboardData (Some ([], Some \<lparr>average_mood = Some 0, trend = None\<rparr>))
        initialMoodDashboardState) = NoDataView
   \<and> MoodDashboard (\<lambda>x. ustr ''0.0'')
       \<lparr>history = [], patterns = None, MoodDashboardState.loading = False\<rparr> = NoDataView
   \<and> averageMoodCard (MoodDashboard (\<lambda>x. ustr ''0.0'')
         \<lparr>history = [sample_entry],
          patterns = Some \<lparr>average_mood = None, trend = Some (ustr ''STABLE'')\<rparr>,
          MoodDashboardState.loading = False\<rparr>) = ustr ''N/A''"
  using empty_history_no_data
    [where fmt = "\<lambda>x. ustr ''0.0''"
       and st = "\<lparr>history = [], patterns = None, MoodDashboardState.loading = False\<rparr>"
       and p = "Some \<lparr>average_mood = Some 0, trend = None\<rparr>"]
    empty_history_no_data
    [where fmt = "\<lambda>x. ustr ''0.0''"
       and st = "\<lparr>history = [sample_entry],
                  patterns = Some \<lparr>average_mood = None, trend = Some (ustr ''STABLE'')\<rparr>,
                  MoodDashboardState.loading = False\<rparr>"
       and ps = "\<lparr>average_mood = None, trend = Some (ustr ''STABLE'')\<rparr>"]
  by (simp add: loadDashboardData_def initialMoodDashboardState_def)

text \<open>The second statement of the callback always reads a number.\<close>

lemma obj_get_obj_set: "obj_get (obj_set acc k v) k = Some v"
proof (cases "k \<in> fst ` set acc")
  case True
  then show ?thesis
    by (induction acc) (auto simp: obj_get_def obj_set_def)
next
  case False
  then have "map_of acc k = None"
    by (simp add: map_of_eq_None_iff)
  then show ?thesis
    using False by (simp add: obj_get_def obj_set_def map_add_def)
qed

lemma add_score_reads_number:
  "obj_get (case obj_get acc emotion of
              None \<Rightarrow> obj_set acc emotion 0
            | Some v \<Rightarrow> if v = 0 then obj_set acc emotion 0 else acc) emotion \<noteq> None"
  by (cases "obj_get acc emotion") (auto simp: obj_get_obj_set)






















end
